theory Spec2Isabelle
  imports Complex_Main "HOL-Library.Log_Nat"
begin

section \<open>JavaScript values\<close>

text \<open>
  A JavaScript \<^verbatim>\<open>number\<close> is a binary64 value: finite, NaN or an infinity. A finite
  value is held as the rational it denotes; comparisons are exact on it, arithmetic
  rounds its result (below). The right operand of every comparison of the source is a
  finite literal. A comparison with NaN is false.
\<close>

datatype jsnum = Num rat | NaN | PosInfinity | NegInfinity

fun js_ge :: "jsnum \<Rightarrow> rat \<Rightarrow> bool" where
  "js_ge (Num a) c = (a \<ge> c)"
| "js_ge PosInfinity c = True"
| "js_ge NaN c = False"
| "js_ge NegInfinity c = False"

fun js_le :: "jsnum \<Rightarrow> rat \<Rightarrow> bool" where
  "js_le (Num a) c = (a \<le> c)"
| "js_le NegInfinity c = True"
| "js_le NaN c = False"
| "js_le PosInfinity c = False"

fun js_gt :: "jsnum \<Rightarrow> rat \<Rightarrow> bool" where
  "js_gt (Num a) c = (a > c)"
| "js_gt PosInfinity c = True"
| "js_gt NaN c = False"
| "js_gt NegInfinity c = False"

text \<open>
  Rounding of an exact result to binary64, to nearest with ties to even: a value in
  \<open>[2^e, 2^(e+1))\<close> is rounded to a multiple of \<open>2^(e-52)\<close>, with \<open>e\<close> not below
  \<open>-1022\<close> (subnormal values), and a magnitude that rounds to \<open>2^1024\<close> or more (\<open>e\<close>
  above 1023, or \<open>e = 1023\<close> and the multiple reaching \<open>2^53\<close>) overflows to an infinity.
  The sign of a zero is not kept; the source never observes it.
\<close>

definition pow2 :: "int \<Rightarrow> rat" where
  "pow2 e = (if e \<ge> 0 then 2 ^ nat e else 1 / 2 ^ nat (- e))"

text \<open>For \<open>x > 0\<close>, the \<open>e\<close> with \<open>2^e \<le> x < 2^(e+1)\<close>.\<close>

definition exponent :: "rat \<Rightarrow> int" where
  "exponent x =
     (if x \<ge> 1 then int (floorlog 2 (nat \<lfloor>x\<rfloor>)) - 1
      else - int (floorlog 2 (nat (\<lceil>1 / x\<rceil> - 1))))"

definition roundHalfEven :: "rat \<Rightarrow> int" where
  "roundHalfEven x =
     (let f = \<lfloor>x\<rfloor>; d = x - of_int f
      in if d < 1/2 then f else if d > 1/2 then f + 1 else if even f then f else f + 1)"

definition fl :: "rat \<Rightarrow> jsnum" where
  "fl x =
     (if x = 0 then Num 0
      else
        (let e = exponent \<bar>x\<bar>;
             quantum = pow2 (max e (- 1022) - 52);
             n = roundHalfEven (\<bar>x\<bar> / quantum)
         in if e > 1023 \<or> (e = 1023 \<and> n \<ge> 2 ^ 53)
            then (if x < 0 then NegInfinity else PosInfinity)
            else Num ((if x < 0 then - 1 else 1) * of_int n * quantum)))"

text \<open>\<^verbatim>\<open>a + b\<close> on numbers.\<close>

fun js_add :: "jsnum \<Rightarrow> jsnum \<Rightarrow> jsnum" where
  "js_add (Num a) (Num b) = fl (a + b)"
| "js_add NaN y = NaN"
| "js_add x NaN = NaN"
| "js_add PosInfinity NegInfinity = NaN"
| "js_add NegInfinity PosInfinity = NaN"
| "js_add PosInfinity y = PosInfinity"
| "js_add x PosInfinity = PosInfinity"
| "js_add NegInfinity y = NegInfinity"
| "js_add x NegInfinity = NegInfinity"

text \<open>\<^verbatim>\<open>a / n\<close> for a count \<open>n\<close>, as in \<^verbatim>\<open>totalQuality / qualityCount\<close>.\<close>

fun js_div :: "jsnum \<Rightarrow> nat \<Rightarrow> jsnum" where
  "js_div (Num a) n =
     (if n = 0 then (if a > 0 then PosInfinity else if a < 0 then NegInfinity else NaN)
      else fl (a / of_nat n))"
| "js_div NaN n = NaN"
| "js_div PosInfinity n = PosInfinity"
| "js_div NegInfinity n = NegInfinity"

text \<open>
  \<^verbatim>\<open>Math.round\<close> rounds to the nearest integer, halves upwards; the result is exact.
  \<^verbatim>\<open>Math.max(c, x)\<close> and \<^verbatim>\<open>Math.min(c, x)\<close> for a finite literal \<open>c\<close>.
\<close>

fun math_round :: "jsnum \<Rightarrow> jsnum" where
  "math_round (Num x) = Num (of_int \<lfloor>x + 1/2\<rfloor>)"
| "math_round x = x"

fun math_max :: "rat \<Rightarrow> jsnum \<Rightarrow> jsnum" where
  "math_max c (Num x) = Num (max c x)"
| "math_max c PosInfinity = PosInfinity"
| "math_max c NegInfinity = Num c"
| "math_max c NaN = NaN"

fun math_min :: "rat \<Rightarrow> jsnum \<Rightarrow> jsnum" where
  "math_min c (Num x) = Num (min c x)"
| "math_min c PosInfinity = Num c"
| "math_min c NegInfinity = NegInfinity"
| "math_min c NaN = NaN"

text \<open>
  A value produced by \<^verbatim>\<open>response.json()\<close>. An object is the list of its properties,
  each name once; a number is any \<open>jsnum\<close> (a literal such as \<^verbatim>\<open>1e309\<close> parses to an
  infinity).
  \<^verbatim>\<open>undefined\<close> (a missing property) is \<open>None\<close> of \<open>json option\<close>.
\<close>

datatype json =
    JNull
  | JBool bool
  | JNum jsnum
  | JStr string
  | JArr "json list"
  | JObj "(string \<times> json) list"

datatype exn = FetchFailed string | TypeError | SyntaxError

fun message :: "exn \<Rightarrow> string" where
  "message (FetchFailed m) = m"
| "message TypeError = ''TypeError''"
| "message SyntaxError = ''SyntaxError''"

text \<open>Truthiness of a value, and of a possibly undefined one.\<close>

fun truthy :: "json \<Rightarrow> bool" where
  "truthy JNull = False"
| "truthy (JBool b) = b"
| "truthy (JNum n) = (case n of Num x \<Rightarrow> x \<noteq> 0 | NaN \<Rightarrow> False | _ \<Rightarrow> True)"
| "truthy (JStr s) = (s \<noteq> [])"
| "truthy (JArr xs) = True"
| "truthy (JObj kvs) = True"

fun truthy_opt :: "json option \<Rightarrow> bool" where
  "truthy_opt None = False"
| "truthy_opt (Some v) = truthy v"

text \<open>
  Reading a named property \<^verbatim>\<open>v.name\<close>: a TypeError on \<^verbatim>\<open>null\<close>, the property of an
  object, and \<^verbatim>\<open>undefined\<close> on every other value (none of the names read by the source
  is a built-in property of a number, boolean, string or array).
\<close>

fun get_prop :: "json \<Rightarrow> string \<Rightarrow> exn + json option" where
  "get_prop JNull name = Inl TypeError"
| "get_prop (JObj kvs) name = Inr (map_of kvs name)"
| "get_prop v name = Inr None"

section \<open>Technologies and the layer registry\<close>

text \<open>The keys of \<^verbatim>\<open>technologyLayers\<close>, in the order of the source (\<open>T_ALL\<close> is the key ALL, \<open>T2G\<close> the key 2G, and so on).\<close>

datatype tech =
    T_ALL | T2G | T3G | T4G | T5G | UNCAPPED_WIRELESS | FIBRE | LICENSED_WIRELESS | FIXED_LTE

record layerConfig =
  mlid :: string
  geoserverLayer :: string
  style :: string
  opacity :: rat

definition technologyLayers :: "(tech \<times> layerConfig) list" where
  "technologyLayers =
    [(T_ALL, \<lparr>mlid = ''EBU-RBUS-ALL'', geoserverLayer = ''mtnsi:MTN-EBU-RBUS-ALL2'',
            style = ''MTN-EBU-RBUS-ALL'', opacity = 7/10\<rparr>),
     (T2G, \<lparr>mlid = ''EBU-RBUS-ALL'', geoserverLayer = ''mtnsi:MTNSA-Coverage-2G'',
            style = ''MTN-Coverage-2G'', opacity = 7/10\<rparr>),
     (T3G, \<lparr>mlid = ''EBU-RBUS-ALL'', geoserverLayer = ''mtnsi:MTNSA-Coverage-3G'',
            style = ''MTN-Coverage-3G'', opacity = 7/10\<rparr>),
     (T4G, \<lparr>mlid = ''EBU-RBUS-ALL'', geoserverLayer = ''mtnsi:MTNSA-Coverage-4G'',
            style = ''MTN-Coverage-4G'', opacity = 7/10\<rparr>),
     (T5G, \<lparr>mlid = ''EBU-RBUS-ALL'', geoserverLayer = ''mtnsi:MTNSA-Coverage-5G'',
            style = ''MTN-Coverage-5G'', opacity = 7/10\<rparr>),
     (UNCAPPED_WIRELESS, \<lparr>mlid = ''UncappedWirelessEBU'',
            geoserverLayer = ''mtnsi:MTNSA-Coverage-Tarana'',
            style = ''MTN-Coverage-UWA-EBU'', opacity = 7/10\<rparr>),
     (FIBRE, \<lparr>mlid = ''FTTBCoverage'', geoserverLayer = ''mtnsi:MTN-FTTB-Feasible'',
            style = ''MTN-FTTB-Feasible-G'', opacity = 7/10\<rparr>),
     (LICENSED_WIRELESS, \<lparr>mlid = ''PMPCoverage'',
            geoserverLayer = ''mtnsi:MTN-PMP-Feasible-Integrated'',
            style = ''MTN-PMP-Feasible-B'', opacity = 7/10\<rparr>),
     (FIXED_LTE, \<lparr>mlid = ''FLTECoverageEBU'',
            geoserverLayer = ''mtnsi:MTNSA-Coverage-FIXLTE-EBU-0'',
            style = ''MTN-Coverage-FIXLTE-EBU-R'', opacity = 7/10\<rparr>)]"

section \<open>Analysis of the returned features\<close>

datatype tier = low | medium | high

record analysis =
  strength :: tier
  quality :: jsnum

text \<open>
  \<^verbatim>\<open>techQuality[techType] || 70\<close>: the table has seven keys; the two other
  technologies read \<^verbatim>\<open>undefined\<close> and take the fallback 70.
\<close>

fun techQuality :: "tech \<Rightarrow> rat option" where
  "techQuality T2G = Some 60"
| "techQuality T3G = Some 70"
| "techQuality T4G = Some 85"
| "techQuality T5G = Some 95"
| "techQuality UNCAPPED_WIRELESS = Some 80"
| "techQuality FIBRE = Some 98"
| "techQuality FIXED_LTE = Some 75"
| "techQuality t = None"

definition defaultQuality :: "tech \<Rightarrow> jsnum" where
  "defaultQuality t = (case techQuality t of Some q \<Rightarrow> Num q | None \<Rightarrow> Num 70)"

definition signalProps :: "string list" where
  "signalProps = [''signal'', ''strength'', ''quality'', ''level'', ''power'', ''rssi'']"

text \<open>
  The inner \<^verbatim>\<open>for (const prop of signalProps)\<close> loop on a truthy \<^verbatim>\<open>props\<close> value:
  \<^verbatim>\<open>props[prop]\<close> counts when it is a number greater than 0.
\<close>

fun propsLoop :: "json \<Rightarrow> string list \<Rightarrow> jsnum \<times> nat \<Rightarrow> jsnum \<times> nat" where
  "propsLoop props [] acc = acc"
| "propsLoop props (p # ps) (totalQuality, qualityCount) =
     (case get_prop props p of
        Inr (Some (JNum v)) \<Rightarrow>
          (if js_gt v 0 then propsLoop props ps (js_add totalQuality v, qualityCount + 1)
           else propsLoop props ps (totalQuality, qualityCount))
      | _ \<Rightarrow> propsLoop props ps (totalQuality, qualityCount))"

text \<open>
  The body of \<^verbatim>\<open>features.forEach\<close>: reading \<^verbatim>\<open>feature.properties\<close> throws on a
  \<^verbatim>\<open>null\<close> feature and ends the whole loop.
\<close>

fun featuresLoop :: "json list \<Rightarrow> jsnum \<times> nat \<Rightarrow> exn + jsnum \<times> nat" where
  "featuresLoop [] acc = Inr acc"
| "featuresLoop (feature # rest) acc =
     (case get_prop feature ''properties'' of
        Inl e \<Rightarrow> Inl e
      | Inr None \<Rightarrow> featuresLoop rest acc
      | Inr (Some props) \<Rightarrow>
          (if truthy props then featuresLoop rest (propsLoop props signalProps acc)
           else featuresLoop rest acc))"

definition analyzeCoverageFeatures :: "json list \<Rightarrow> tech \<Rightarrow> exn + analysis" where
  "analyzeCoverageFeatures features techType =
     (if features = [] then Inr \<lparr>strength = low, quality = Num 0\<rparr>
      else
        (case featuresLoop features (Num 0, 0) of
           Inl e \<Rightarrow> Inl e
         | Inr (totalQuality, qualityCount) \<Rightarrow>
             (let q = (if qualityCount > 0
                       then math_round (js_div totalQuality qualityCount)
                       else defaultQuality techType);
                  s = (if js_ge q 85 \<and> length features \<ge> 3 then high
                       else if js_ge q 65 \<or> length features \<ge> 2 then medium
                       else low)
              in Inr \<lparr>strength = s, quality = math_min 100 (math_max 0 q)\<rparr>)))"


section \<open>Geographic classifier\<close>

definition north :: rat where "north = -22"
definition south :: rat where "south = -35"
definition east :: rat where "east = 33"
definition west :: rat where "west = 16"

definition isInSouthAfrica :: "jsnum \<Rightarrow> jsnum \<Rightarrow> bool" where
  "isInSouthAfrica lat lng =
     (js_ge lat south \<and> js_le lat north \<and> js_ge lng west \<and> js_le lng east)"

text \<open>The province table, in the order of the source: name, latitude range, longitude range.\<close>

definition provinces :: "(string \<times> (rat \<times> rat) \<times> (rat \<times> rat)) list" where
  "provinces =
    [(''Gauteng'', (-26.5, -25.0), (27.5, 29.0)),
     (''Western Cape'', (-34.5, -31.0), (17.5, 21.0)),
     (''KwaZulu-Natal'', (-31.5, -27.0), (28.5, 33.0)),
     (''Eastern Cape'', (-33.5, -30.0), (22.0, 28.5)),
     (''Limpopo'', (-25.5, -22.0), (26.5, 31.5)),
     (''Mpumalanga'', (-26.5, -24.0), (28.5, 32.0)),
     (''North West'', (-27.5, -24.0), (22.0, 28.5)),
     (''Free State'', (-30.0, -26.5), (24.0, 29.5)),
     (''Northern Cape'', (-32.0, -26.0), (16.0, 26.0))]"

fun provinceLoop ::
  "(string \<times> (rat \<times> rat) \<times> (rat \<times> rat)) list \<Rightarrow> jsnum \<Rightarrow> jsnum \<Rightarrow> string" where
  "provinceLoop [] lat lng = ''Unknown''"
| "provinceLoop ((province, (lat0, lat1), (lng0, lng1)) # rest) lat lng =
     (if js_ge lat lat0 \<and> js_le lat lat1 \<and> js_ge lng lng0 \<and> js_le lng lng1 then province
      else provinceLoop rest lat lng)"

definition getProvince :: "jsnum \<Rightarrow> jsnum \<Rightarrow> string" where
  "getProvince lat lng = provinceLoop provinces lat lng"

section \<open>The coverage result\<close>

record observation = analysis +
  obs_type :: tech
  available :: bool
  infrastructureType :: string
  features :: "json list"
  layerInfo :: layerConfig

record techError =
  tech :: tech
  tech_error :: string

record geoServerEntry =
  geo_available :: bool
  types :: "observation list"
  geo_source :: string
  geo_coordinates :: "jsnum \<times> jsnum"
  geo_address :: "string option"
  geo_errors :: "techError list option"

text \<open>
  The entries of the four other sources have the same shape: the constant
  \<^verbatim>\<open>available: true\<close>, the payload (\<^verbatim>\<open>data\<close>, \<^verbatim>\<open>types\<close>, \<^verbatim>\<open>features\<close> or \<^verbatim>\<open>services\<close>)
  and the name of the source.
\<close>

record sourceEntry =
  src_available :: bool
  src_payload :: json
  src_source :: string

text \<open>
  \<^verbatim>\<open>CoverageData\<close>: an object with optional keys. A key is present when its field is
  \<open>Some\<close>; \<^verbatim>\<open>Object.keys(coverage).length\<close> counts the present keys.
\<close>

record CoverageData =
  mtnGeoServer :: "geoServerEntry option"
  publicQuery :: "sourceEntry option"
  coveragePoint :: "sourceEntry option"
  wmsFeatures :: "sourceEntry option"
  consumerApi :: "sourceEntry option"

definition emptyCoverage :: CoverageData where
  "emptyCoverage = \<lparr>mtnGeoServer = None, publicQuery = None, coveragePoint = None,
                     wmsFeatures = None, consumerApi = None\<rparr>"

definition keysCount :: "CoverageData \<Rightarrow> nat" where
  "keysCount c =
     (if mtnGeoServer c = None then 0 else 1) + (if publicQuery c = None then 0 else 1) +
     (if coveragePoint c = None then 0 else 1) + (if wmsFeatures c = None then 0 else 1) +
     (if consumerApi c = None then 0 else 1)"

text \<open>\<^verbatim>\<open>Object.assign(target, value)\<close>: the keys of the value overwrite those of the target.\<close>

definition orElse :: "'a option \<Rightarrow> 'a option \<Rightarrow> 'a option" where
  "orElse new old = (case new of Some x \<Rightarrow> Some x | None \<Rightarrow> old)"

definition objectAssign :: "CoverageData \<Rightarrow> CoverageData \<Rightarrow> CoverageData" where
  "objectAssign target v =
     \<lparr>mtnGeoServer = orElse (mtnGeoServer v) (mtnGeoServer target),
      publicQuery = orElse (publicQuery v) (publicQuery target),
      coveragePoint = orElse (coveragePoint v) (coveragePoint target),
      wmsFeatures = orElse (wmsFeatures v) (wmsFeatures target),
      consumerApi = orElse (consumerApi v) (consumerApi target)\<rparr>"

datatype endpoint = EndpointIndex nat | EndpointName string

record ErrorInfo =
  endpoint :: endpoint
  error :: string

text \<open>
  The \<^verbatim>\<open>address\<close> field is \<^verbatim>\<open>address || `${latitude}, ${longitude}`\<close>: the given text, or
  the label made of the two coordinates when the argument is missing or empty.
\<close>

datatype addressText = Given string | CoordinateLabel jsnum jsnum

definition addressOr :: "string option \<Rightarrow> jsnum \<Rightarrow> jsnum \<Rightarrow> addressText" where
  "addressOr address latitude longitude =
     (case address of
        None \<Rightarrow> CoordinateLabel latitude longitude
      | Some a \<Rightarrow> if a = [] then CoordinateLabel latitude longitude else Given a)"

text \<open>The \<^verbatim>\<open>timestamp\<close> is the clock value whose ISO text the source stores.\<close>

record CoverageResult =
  coordinates :: "jsnum \<times> jsnum"
  address :: addressText
  province :: string
  timestamp :: int
  coverage :: CoverageData
  errors :: "ErrorInfo list"
  success :: bool

section \<open>Transport, clock and cache\<close>

text \<open>
  One constructor for each \<^verbatim>\<open>fetch\<close> of the source; the URL and the query string
  (with the bounding box that \<^verbatim>\<open>convertToSphericalMercator\<close> computes in floating
  point) are functions of the arguments kept here.
\<close>

datatype request =
    GeoServerFeatureInfo tech jsnum jsnum
  | PublicCoverageQuery jsnum jsnum
  | CoverageApiPoint jsnum jsnum
  | WMSFeatureInfo jsnum jsnum
  | ConsumerApi jsnum jsnum

text \<open>
  What a \<^verbatim>\<open>fetch\<close> does: it rejects with an error, or it gives a response with a status
  and a body, which \<^verbatim>\<open>response.json()\<close> parses (\<open>Some\<close>) or rejects (\<open>None\<close>).
\<close>

datatype response = Rejects string | Reply nat "json option"

definition ok :: "nat \<Rightarrow> bool" where
  "ok status = (200 \<le> status \<and> status \<le> 299)"

text \<open>
  The surroundings of one call of \<^verbatim>\<open>checkCoverage\<close>: the answer to each request, the
  clock in milliseconds when the call starts (the cache is read and the result is
  stamped before the first request), and the clock when the requests have settled
  (the cache is written then).
\<close>

record world =
  fetch :: "request \<Rightarrow> response"
  clockStart :: int
  clockEnd :: int

text \<open>
  \<^verbatim>\<open>toFixed(4)\<close>: the sign and the magnitude rounded to four decimals, halves upwards
  in magnitude. The two determine the text (for magnitudes below \<open>10^21\<close>).
\<close>

datatype fixed = Fixed bool nat | FixedNaN | FixedInfinity bool

fun toFixed4 :: "jsnum \<Rightarrow> fixed" where
  "toFixed4 (Num x) = Fixed (x < 0) (nat \<lfloor>\<bar>x\<bar> * 10000 + 1/2\<rfloor>)"
| "toFixed4 NaN = FixedNaN"
| "toFixed4 PosInfinity = FixedInfinity False"
| "toFixed4 NegInfinity = FixedInfinity True"

type_synonym cacheKey = "fixed \<times> fixed"

record cacheEntry =
  data :: CoverageResult
  entry_timestamp :: int

text \<open>
  The state of the \<^verbatim>\<open>MTNApi\<close> object is its cache. The list \<open>calls\<close> records every
  \<^verbatim>\<open>fetch\<close> issued, in order; the source has no such field, it is what a call-count
  assertion observes.
\<close>

record state =
  cache :: "cacheKey \<rightharpoonup> cacheEntry"
  calls :: "request list"

definition initialState :: state where
  "initialState = \<lparr>cache = Map.empty, calls = []\<rparr>"

definition cacheTimeout :: int where
  "cacheTimeout = 300000"

definition doFetch :: "world \<Rightarrow> request \<Rightarrow> state \<Rightarrow> response \<times> state" where
  "doFetch w req s = (fetch w req, s\<lparr>calls := calls s @ [req]\<rparr>)"

definition addToCache :: "cacheKey \<Rightarrow> CoverageResult \<Rightarrow> int \<Rightarrow> state \<Rightarrow> state" where
  "addToCache key d dateNow s =
     s\<lparr>cache := (cache s)(key \<mapsto> \<lparr>data = d, entry_timestamp = dateNow\<rparr>)\<rparr>"

definition getFromCache :: "cacheKey \<Rightarrow> int \<Rightarrow> state \<Rightarrow> CoverageResult option \<times> state" where
  "getFromCache key dateNow s =
     (case cache s key of
        Some cached \<Rightarrow>
          if dateNow - entry_timestamp cached < cacheTimeout then (Some (data cached), s)
          else (None, s\<lparr>cache := (cache s)(key := None)\<rparr>)
      | None \<Rightarrow> (None, s\<lparr>cache := (cache s)(key := None)\<rparr>))"

section \<open>The primary source: one GetFeatureInfo request for each technology\<close>

fun getTechnologyDescription :: "tech \<Rightarrow> string" where
  "getTechnologyDescription T2G = ''Legacy Network''"
| "getTechnologyDescription T3G = ''Enhanced Network''"
| "getTechnologyDescription T4G = ''LTE Network''"
| "getTechnologyDescription T5G = ''5G Network''"
| "getTechnologyDescription UNCAPPED_WIRELESS = ''Fixed Wireless Access''"
| "getTechnologyDescription FIBRE = ''Fibre Network''"
| "getTechnologyDescription FIXED_LTE = ''Fixed LTE Access''"
| "getTechnologyDescription t = ''Network Coverage''"

text \<open>
  The \<^verbatim>\<open>try\<close> block of \<^verbatim>\<open>checkTechnologyCoverage\<close> after the \<^verbatim>\<open>fetch\<close>. When
  \<^verbatim>\<open>data.features\<close> is not an array, either \<^verbatim>\<open>hasCoverage\<close> is falsy and the block
  returns \<^verbatim>\<open>null\<close>, or \<^verbatim>\<open>features.forEach\<close> is not a function and the call throws
  inside the block; the \<^verbatim>\<open>catch\<close> clause returns \<^verbatim>\<open>null\<close> as well, and the model
  gives \<open>Inr None\<close> for both.
\<close>

definition interpretResponse ::
  "response \<Rightarrow> tech \<Rightarrow> layerConfig \<Rightarrow> exn + observation option" where
  "interpretResponse resp techType cfg =
     (case resp of
        Rejects m \<Rightarrow> Inl (FetchFailed m)
      | Reply status body \<Rightarrow>
          if ok status then
            (case body of
               None \<Rightarrow> Inl SyntaxError
             | Some d \<Rightarrow>
                 (case get_prop d ''features'' of
                    Inl e \<Rightarrow> Inl e
                  | Inr (Some (JArr fs)) \<Rightarrow>
                      if length fs > 0 then
                        (case analyzeCoverageFeatures fs techType of
                           Inl e \<Rightarrow> Inl e
                         | Inr coverageAnalysis \<Rightarrow>
                             Inr (Some \<lparr>strength = strength coverageAnalysis,
                                        quality = quality coverageAnalysis,
                                        obs_type = techType, available = True,
                                        infrastructureType = getTechnologyDescription techType,
                                        features = fs, layerInfo = cfg\<rparr>))
                      else Inr None
                  | Inr _ \<Rightarrow> Inr None))
          else Inr None)"

text \<open>The whole function: the \<^verbatim>\<open>catch\<close> clause turns every exception into \<^verbatim>\<open>null\<close>.\<close>

definition checkTechnologyCoverage ::
  "world \<Rightarrow> jsnum \<Rightarrow> jsnum \<Rightarrow> tech \<Rightarrow> layerConfig \<Rightarrow> state
     \<Rightarrow> (exn + observation option) \<times> state" where
  "checkTechnologyCoverage w lat lng techType cfg s =
     (let (resp, s') = doFetch w (GeoServerFeatureInfo techType lat lng) s
      in (case interpretResponse resp techType cfg of
            Inl e \<Rightarrow> (Inr None, s')
          | Inr r \<Rightarrow> (Inr r, s')))"

text \<open>
  The loop of \<^verbatim>\<open>getRealMTNCoverage\<close> over the layer registry, with its two lists.
\<close>

fun technologyLoop ::
  "world \<Rightarrow> jsnum \<Rightarrow> jsnum \<Rightarrow> (tech \<times> layerConfig) list
     \<Rightarrow> observation list \<times> techError list \<Rightarrow> state
     \<Rightarrow> (observation list \<times> techError list) \<times> state" where
  "technologyLoop w lat lng [] acc s = (acc, s)"
| "technologyLoop w lat lng ((techType, cfg) # rest) (availableTechnologies, errs) s =
     (case checkTechnologyCoverage w lat lng techType cfg s of
        (Inl e, s') \<Rightarrow>
          technologyLoop w lat lng rest
            (availableTechnologies, errs @ [\<lparr>tech = techType, tech_error = message e\<rparr>]) s'
      | (Inr None, s') \<Rightarrow> technologyLoop w lat lng rest (availableTechnologies, errs) s'
      | (Inr (Some c), s') \<Rightarrow>
          technologyLoop w lat lng rest (availableTechnologies @ [c], errs) s')"

definition getRealMTNCoverage ::
  "world \<Rightarrow> jsnum \<Rightarrow> jsnum \<Rightarrow> string option \<Rightarrow> state \<Rightarrow> CoverageData option \<times> state" where
  "getRealMTNCoverage w lat lng addr s =
     (let ((availableTechnologies, errs), s') = technologyLoop w lat lng technologyLayers ([], []) s
      in if length availableTechnologies = 0 then (None, s')
         else (Some (emptyCoverage\<lparr>mtnGeoServer := Some
                 \<lparr>geo_available = True, types = availableTechnologies,
                  geo_source = ''MTN GeoServer WMS'', geo_coordinates = (lat, lng),
                  geo_address = addr,
                  geo_errors = (if length errs > 0 then Some errs else None)\<rparr>\<rparr>), s'))"

section \<open>The four other sources\<close>

text \<open>
  Each of them returns \<^verbatim>\<open>null\<close> when the request rejects, the status is not ok or
  the body does not parse; its promise is never rejected.
\<close>

definition okJson :: "response \<Rightarrow> json option" where
  "okJson resp =
     (case resp of Rejects m \<Rightarrow> None | Reply status body \<Rightarrow> if ok status then body else None)"

definition tryPublicCoverageQuery ::
  "world \<Rightarrow> jsnum \<Rightarrow> jsnum \<Rightarrow> state \<Rightarrow> (exn + CoverageData option) \<times> state" where
  "tryPublicCoverageQuery w lat lng s =
     (let (resp, s') = doFetch w (PublicCoverageQuery lat lng) s
      in (case okJson resp of
            None \<Rightarrow> (Inr None, s')
          | Some d \<Rightarrow>
              (Inr (Some (emptyCoverage\<lparr>publicQuery := Some
                 \<lparr>src_available = True, src_payload = d,
                  src_source = ''MTN Public Coverage Query''\<rparr>\<rparr>)), s')))"

definition tryCoverageApiPoint ::
  "world \<Rightarrow> jsnum \<Rightarrow> jsnum \<Rightarrow> state \<Rightarrow> (exn + CoverageData option) \<times> state" where
  "tryCoverageApiPoint w lat lng s =
     (let (resp, s') = doFetch w (CoverageApiPoint lat lng) s
      in (case okJson resp of
            None \<Rightarrow> (Inr None, s')
          | Some d \<Rightarrow>
              (Inr (Some (emptyCoverage\<lparr>coveragePoint := Some
                 \<lparr>src_available = True, src_payload = d,
                  src_source = ''MTN Coverage API Point''\<rparr>\<rparr>)), s')))"

text \<open>
  \<^verbatim>\<open>features: data.features || []\<close>; on a \<^verbatim>\<open>null\<close> body the read throws and the
  \<^verbatim>\<open>catch\<close> clause makes the function return \<^verbatim>\<open>null\<close>.
\<close>

definition tryWMSFeatureInfo ::
  "world \<Rightarrow> jsnum \<Rightarrow> jsnum \<Rightarrow> state \<Rightarrow> (exn + CoverageData option) \<times> state" where
  "tryWMSFeatureInfo w lat lng s =
     (let (resp, s') = doFetch w (WMSFeatureInfo lat lng) s
      in (case okJson resp of
            None \<Rightarrow> (Inr None, s')
          | Some d \<Rightarrow>
              (case get_prop d ''features'' of
                 Inl e \<Rightarrow> (Inr None, s')
               | Inr fs \<Rightarrow>
                   (Inr (Some (emptyCoverage\<lparr>wmsFeatures := Some
                      \<lparr>src_available = True,
                       src_payload = (case fs of
                                        Some v \<Rightarrow> if truthy v then v else JArr []
                                      | None \<Rightarrow> JArr []),
                       src_source = ''MTN WMS Service''\<rparr>\<rparr>)), s'))))"

definition tryAlternativeEndpoint ::
  "world \<Rightarrow> jsnum \<Rightarrow> jsnum \<Rightarrow> state \<Rightarrow> (exn + CoverageData option) \<times> state" where
  "tryAlternativeEndpoint w lat lng s =
     (let (resp, s') = doFetch w (ConsumerApi lat lng) s
      in (case okJson resp of
            None \<Rightarrow> (Inr None, s')
          | Some d \<Rightarrow>
              (Inr (Some (emptyCoverage\<lparr>consumerApi := Some
                 \<lparr>src_available = True, src_payload = d,
                  src_source = ''MTN Consumer API''\<rparr>\<rparr>)), s')))"

text \<open>
  \<^verbatim>\<open>responses.forEach((response, index) => ...)\<close> over the settled promises:
  \<open>Inr\<close> is a fulfilled promise with its value, \<open>Inl\<close> a rejected one with its reason.
\<close>

fun processResponses ::
  "(exn + CoverageData option) list \<Rightarrow> nat \<Rightarrow> CoverageResult \<Rightarrow> CoverageResult" where
  "processResponses [] index results = results"
| "processResponses (Inr (Some v) # rest) index results =
     processResponses rest (index + 1)
       (results\<lparr>coverage := objectAssign (coverage results) v\<rparr>)"
| "processResponses (Inr None # rest) index results =
     processResponses rest (index + 1) results"
| "processResponses (Inl reason # rest) index results =
     processResponses rest (index + 1)
       (results\<lparr>errors := errors results @
          [\<lparr>endpoint = EndpointIndex index,
            error = (if message reason = [] then ''Unknown error'' else message reason)\<rparr>]\<rparr>)"

section \<open>The entry point\<close>

text \<open>
  \<^verbatim>\<open>MTNApi.checkCoverage\<close>. The four other sources are started in the order of the
  source, so their requests are issued in that order. Nothing inside the last
  \<^verbatim>\<open>try\<close> block can throw (\<^verbatim>\<open>Promise.allSettled\<close> never rejects), so its
  \<^verbatim>\<open>catch\<close> clause, which would add an error named general, has no branch here.
\<close>

definition checkCoverage ::
  "world \<Rightarrow> jsnum \<Rightarrow> jsnum \<Rightarrow> string option \<Rightarrow> state \<Rightarrow> CoverageResult \<times> state" where
  "checkCoverage w latitude longitude addr s =
     (if \<not> isInSouthAfrica latitude longitude then
        (\<lparr>coordinates = (latitude, longitude),
          address = addressOr addr latitude longitude,
          province = ''Unknown'',
          timestamp = clockStart w,
          coverage = emptyCoverage,
          errors = [\<lparr>endpoint = EndpointName ''validation'',
                     error = ''Coordinates are outside South Africa''\<rparr>],
          success = False\<rparr>, s)
      else
        (let key = (toFixed4 latitude, toFixed4 longitude);
             (cached, s0) = getFromCache key (clockStart w) s
         in case cached of
              Some r \<Rightarrow> (r, s0)
            | None \<Rightarrow>
               (let results = \<lparr>coordinates = (latitude, longitude),
                               address = addressOr addr latitude longitude,
                               province = getProvince latitude longitude,
                               timestamp = clockStart w,
                               coverage = emptyCoverage,
                               errors = [],
                               success = False\<rparr>;
                    (realCoverage, s1) = getRealMTNCoverage w latitude longitude addr s0
                in case realCoverage of
                     Some rc \<Rightarrow>
                       (let results1 = results\<lparr>coverage := rc, success := True\<rparr>
                        in (results1, addToCache key results1 (clockEnd w) s1))
                   | None \<Rightarrow>
                       (let (r1, s2) = tryPublicCoverageQuery w latitude longitude s1;
                            (r2, s3) = tryCoverageApiPoint w latitude longitude s2;
                            (r3, s4) = tryWMSFeatureInfo w latitude longitude s3;
                            (r4, s5) = tryAlternativeEndpoint w latitude longitude s4;
                            results2 = processResponses [r1, r2, r3, r4] 0 results;
                            results3 = results2\<lparr>success := (keysCount (coverage results2) > 0)\<rparr>
                        in if success results3
                           then (results3, addToCache key results3 (clockEnd w) s5)
                           else (results3, s5)))))"


text \<open>
  The object \<^verbatim>\<open>mtnApi\<close> is created once with an empty cache and then called again and
  again; each call has its own surroundings and arguments.
\<close>

type_synonym call = "world \<times> jsnum \<times> jsnum \<times> string option"

fun runCalls :: "call list \<Rightarrow> state \<Rightarrow> CoverageResult list \<times> state" where
  "runCalls [] s = ([], s)"
| "runCalls ((w, latitude, longitude, addr) # rest) s =
     (let (r, s') = checkCoverage w latitude longitude addr s;
          (rs, s'') = runCalls rest s'
      in (r # rs, s''))"

section \<open>The interpreter of the proxy client\<close>

text \<open>
  \<^verbatim>\<open>String.prototype.toLowerCase\<close> and \<^verbatim>\<open>String.prototype.trim\<close> belong to the
  language, with its Unicode case mapping and its set of white space; the interpreter
  takes them as given. \<^verbatim>\<open>includes\<close> is the search for a contiguous part.
\<close>

record stringBuiltins =
  toLowerCase :: "string \<Rightarrow> string"
  trim :: "string \<Rightarrow> string"

fun startsWith :: "string \<Rightarrow> string \<Rightarrow> bool" where
  "startsWith s [] = True"
| "startsWith [] (p # ps) = False"
| "startsWith (c # cs) (p # ps) = (c = p \<and> startsWith cs ps)"

fun js_includes :: "string \<Rightarrow> string \<Rightarrow> bool" where
  "js_includes [] sub = (sub = [])"
| "js_includes (c # cs) sub = (startsWith (c # cs) sub \<or> js_includes cs sub)"

text \<open>
  \<^verbatim>\<open>ApiClient.parseCoverageResult\<close>. Calling \<^verbatim>\<open>toLowerCase\<close> on a truthy \<^verbatim>\<open>content\<close>
  that is not a string throws.
\<close>

definition parseCoverageResult :: "stringBuiltins \<Rightarrow> json \<Rightarrow> exn + bool" where
  "parseCoverageResult b result =
     (if \<not> truthy result then Inr False
      else
        (case (get_prop result ''type'', get_prop result ''content'') of
           (Inr ty, Inr content) \<Rightarrow>
             if ty = Some (JStr ''text'') \<and> truthy_opt content then
               (case content of
                  Some (JStr c) \<Rightarrow>
                    (let lowered = toLowerCase b c
                     in Inr (\<not> js_includes lowered ''no features'' \<and>
                             \<not> js_includes lowered ''outside'' \<and>
                             trim b lowered \<noteq> []))
                | _ \<Rightarrow> Inl TypeError)
             else if ty = Some (JStr ''binary'') \<and> truthy_opt content then Inr True
             else Inr False
         | _ \<Rightarrow> Inl TypeError))"

text \<open>What the two built-ins do on a text of ASCII characters.\<close>

definition asciiLower :: "char \<Rightarrow> char" where
  "asciiLower c =
     (let n = (of_char c :: nat) in if 65 \<le> n \<and> n \<le> 90 then char_of (n + 32) else c)"

definition asciiWhiteSpace :: "char \<Rightarrow> bool" where
  "asciiWhiteSpace c = ((of_char c :: nat) \<in> {9, 10, 11, 12, 13, 32})"

definition asciiBuiltins :: stringBuiltins where
  "asciiBuiltins =
     \<lparr>toLowerCase = map asciiLower,
      trim = (\<lambda>s. rev (dropWhile asciiWhiteSpace (rev (dropWhile asciiWhiteSpace s))))\<rparr>"

section \<open>Declarative readings used in the statements\<close>

text \<open>
  The numeric values of the properties named in \<open>signalProps\<close> that satisfy \<open>keep\<close>,
  over all features, in the order in which the source visits them.
\<close>

fun valuesOfProps :: "(jsnum \<Rightarrow> bool) \<Rightarrow> json \<Rightarrow> string list \<Rightarrow> jsnum list" where
  "valuesOfProps keep props [] = []"
| "valuesOfProps keep props (p # ps) =
     (case get_prop props p of
        Inr (Some (JNum v)) \<Rightarrow> (if keep v then [v] else [])
      | _ \<Rightarrow> []) @ valuesOfProps keep props ps"

fun signalValues :: "(jsnum \<Rightarrow> bool) \<Rightarrow> json list \<Rightarrow> jsnum list" where
  "signalValues keep [] = []"
| "signalValues keep (feature # rest) =
     (case get_prop feature ''properties'' of
        Inr (Some props) \<Rightarrow> (if truthy props then valuesOfProps keep props signalProps else [])
      | _ \<Rightarrow> []) @ signalValues keep rest"

text \<open>
  The average of a list of numbers as double arithmetic computes it: the values are
  added from 0 in the order of the list, and the sum is divided by their number.
\<close>

definition average :: "jsnum list \<Rightarrow> jsnum" where
  "average vs = js_div (foldl js_add (Num 0) vs) (length vs)"

text \<open>
  The quality score as the specification words it: the rounded average of all the
  numeric signal values, or the default of the technology when there is none.
\<close>

definition specifiedQuality :: "json list \<Rightarrow> tech \<Rightarrow> jsnum" where
  "specifiedQuality fs techType =
     (let vs = signalValues (\<lambda>v. True) fs
      in if vs \<noteq> [] then math_round (average vs) else defaultQuality techType)"

text \<open>The availability that a caller reads off the result of the direct interpreter.\<close>

definition availableFlag :: "exn + observation option \<Rightarrow> bool" where
  "availableFlag r = (case r of Inr (Some ob) \<Rightarrow> available ob | _ \<Rightarrow> False)"

text \<open>The invariant of a result, and of the results stored in the cache.\<close>

definition resultInv :: "CoverageResult \<Rightarrow> bool" where
  "resultInv r =
     (success r = (keysCount (coverage r) > 0) \<and> (success r \<longrightarrow> errors r = []))"

definition cacheInv :: "state \<Rightarrow> bool" where
  "cacheInv s = (\<forall>k e. cache s k = Some e \<longrightarrow> resultInv (data e))"

section \<open>Concrete inputs\<close>

definition johannesburg :: "jsnum \<times> jsnum" where
  "johannesburg = (Num (-26.2041), Num 28.0473)"

definition plainFeature :: json where
  "plainFeature = JObj [(''type'', JStr ''Feature''), (''properties'', JObj [])]"

definition featureCollection :: "json list \<Rightarrow> json" where
  "featureCollection fs = JObj [(''type'', JStr ''FeatureCollection''), (''features'', JArr fs)]"

text \<open>
  Surroundings in which the request of 4G fails, the request of 5G returns one
  feature, every other layer returns an empty collection.
\<close>

fun partialFetch :: "request \<Rightarrow> response" where
  "partialFetch (GeoServerFeatureInfo T4G lat lng) = Rejects ''Failed to fetch''"
| "partialFetch (GeoServerFeatureInfo T5G lat lng) =
     Reply 200 (Some (featureCollection [plainFeature]))"
| "partialFetch (GeoServerFeatureInfo t lat lng) = Reply 200 (Some (featureCollection []))"
| "partialFetch req = Rejects ''Failed to fetch''"

definition partialWorld :: world where
  "partialWorld = \<lparr>fetch = partialFetch, clockStart = 1000, clockEnd = 2000\<rparr>"

text \<open>Surroundings in which every request fails.\<close>

definition failingWorld :: world where
  "failingWorld = \<lparr>fetch = (\<lambda>req. Rejects ''Failed to fetch''), clockStart = 1000, clockEnd = 2000\<rparr>"

text \<open>A stored entry: the result of a successful lookup, cached at time 0.\<close>

definition storedResult :: CoverageResult where
  "storedResult =
     \<lparr>coordinates = johannesburg, address = Given ''Johannesburg'', province = ''Gauteng'',
      timestamp = 0,
      coverage = emptyCoverage\<lparr>publicQuery := Some
        \<lparr>src_available = True, src_payload = JNull,
         src_source = ''MTN Public Coverage Query''\<rparr>\<rparr>,
      errors = [], success = True\<rparr>"

definition storedKey :: cacheKey where
  "storedKey = (toFixed4 (fst johannesburg), toFixed4 (snd johannesburg))"

definition storedState :: state where
  "storedState =
     \<lparr>cache = [storedKey \<mapsto> \<lparr>data = storedResult, entry_timestamp = 0\<rparr>], calls = []\<rparr>"

definition signalFeature :: "string \<Rightarrow> jsnum \<Rightarrow> json" where
  "signalFeature name v =
     JObj [(''type'', JStr ''Feature''), (''properties'', JObj [(name, JNum v)])]"

text \<open>
  Three calls in a row on a fresh object: a lookup in which 5G answers, the same point
  again one second later with every request failing, and a point outside the bounds.
\<close>

definition demoCalls :: "call list" where
  "demoCalls =
     [(partialWorld, fst johannesburg, snd johannesburg, None),
      (failingWorld, fst johannesburg, snd johannesburg, None),
      (failingWorld, Num 0, Num 0, None)]"

definition sampleFeatures :: "json list" where
  "sampleFeatures =
     [signalFeature ''signal'' (Num 90), signalFeature ''rssi'' (Num (- 70)), plainFeature]"

text \<open>
  One feature with \<^verbatim>\<open>signal: 64\<close> and \<^verbatim>\<open>strength: 64.99999999999999\<close>; the second
  literal denotes the double next below 65.
\<close>

definition roundingFeature :: json where
  "roundingFeature =
     JObj [(''type'', JStr ''Feature''),
           (''properties'',
              JObj [(''signal'', JNum (Num 64)),
                    (''strength'', JNum (fl (6499999999999999 / 100000000000000)))])]"

section \<open>Properties\<close>

subsection \<open>Bounds check\<close>

lemma isInSouthAfrica_iff:
  "isInSouthAfrica lat lng \<longleftrightarrow>
     (\<exists>a b. lat = Num a \<and> lng = Num b \<and> -35 \<le> a \<and> a \<le> -22 \<and> 16 \<le> b \<and> b \<le> 33)"
  by (cases lat; cases lng) (auto simp: isInSouthAfrica_def north_def south_def east_def west_def)

text \<open>
  C1. For a coordinate pair outside the envelope (latitude in [-35, -22], longitude in
  [16, 33]; a NaN or an infinity is outside), \<open>checkCoverage\<close> returns a result with
  \<open>success = False\<close>, the province Unknown and the single validation error, and the
  list of transport calls is what it was before the call.
\<close>

theorem out_of_bounds_rejected:
  assumes "\<not> (\<exists>a b. latitude = Num a \<and> longitude = Num b \<and>
                 -35 \<le> a \<and> a \<le> -22 \<and> 16 \<le> b \<and> b \<le> 33)"
  shows "success (fst (checkCoverage w latitude longitude addr s)) = False
       \<and> province (fst (checkCoverage w latitude longitude addr s)) = ''Unknown''
       \<and> errors (fst (checkCoverage w latitude longitude addr s)) =
           [\<lparr>endpoint = EndpointName ''validation'',
             error = ''Coordinates are outside South Africa''\<rparr>]
       \<and> calls (snd (checkCoverage w latitude longitude addr s)) = calls s"
proof -
  from assms have "\<not> isInSouthAfrica latitude longitude"
    by (simp only: isInSouthAfrica_iff not_False_eq_True)
  then show ?thesis by (simp add: checkCoverage_def)
qed

theorem out_of_bounds_rejected_witness:
  "success (fst (checkCoverage failingWorld (Num 0) (Num 0) None initialState)) = False
   \<and> province (fst (checkCoverage failingWorld (Num 0) (Num 0) None initialState)) = ''Unknown''
   \<and> errors (fst (checkCoverage failingWorld (Num 0) (Num 0) None initialState)) =
           [\<lparr>endpoint = EndpointName ''validation'',
             error = ''Coordinates are outside South Africa''\<rparr>]
   \<and> calls (snd (checkCoverage failingWorld (Num 0) (Num 0) None initialState)) = []"
  using out_of_bounds_rejected [of "Num 0" "Num 0" failingWorld None initialState]
  by (simp add: initialState_def)

text \<open>
  C10. For a coordinate pair outside the envelope, the state after the call is the state
  before it (the cache and the list of calls alike), and the result does not depend on
  the state in which the call is made: the cache is neither written nor read.
\<close>

theorem out_of_bounds_leaves_cache:
  assumes "\<not> (\<exists>a b. latitude = Num a \<and> longitude = Num b \<and>
                 -35 \<le> a \<and> a \<le> -22 \<and> 16 \<le> b \<and> b \<le> 33)"
  shows "snd (checkCoverage w latitude longitude addr s) = s
       \<and> fst (checkCoverage w latitude longitude addr s) =
         fst (checkCoverage w latitude longitude addr s')"
proof -
  from assms have "\<not> isInSouthAfrica latitude longitude"
    by (simp only: isInSouthAfrica_iff not_False_eq_True)
  then show ?thesis by (simp add: checkCoverage_def)
qed

theorem out_of_bounds_leaves_cache_witness:
  "snd (checkCoverage failingWorld NaN (Num 28) None storedState) = storedState
   \<and> fst (checkCoverage failingWorld NaN (Num 28) None storedState) =
     fst (checkCoverage failingWorld NaN (Num 28) None initialState)"
  using out_of_bounds_leaves_cache [of NaN "Num 28" failingWorld None storedState initialState]
  by simp

subsection \<open>Cache\<close>

text \<open>
  C8, as the code has it. For an entry stored under a key, a read at time \<open>dateNow\<close>
  returns the stored result and leaves the state alone while
  \<open>dateNow - entry_timestamp\<close> is below 300000 ms; from 300000 ms on the read is a miss
  and removes that entry on this access, every other key staying as it was.
\<close>

theorem cache_read_before_timeout:
  assumes "cache s key = Some e"
  shows "(dateNow - entry_timestamp e < 300000 \<longrightarrow>
            getFromCache key dateNow s = (Some (data e), s))
       \<and> (dateNow - entry_timestamp e \<ge> 300000 \<longrightarrow>
            getFromCache key dateNow s = (None, s\<lparr>cache := (cache s)(key := None)\<rparr>))"
  using assms by (simp add: getFromCache_def cacheTimeout_def)

theorem cache_read_before_timeout_witness:
  "fst (getFromCache storedKey 299999 storedState) = Some storedResult
   \<and> fst (getFromCache storedKey 300000 storedState) = None
   \<and> cache (snd (getFromCache storedKey 300000 storedState)) storedKey = None"
  using cache_read_before_timeout [of storedState storedKey
          "\<lparr>data = storedResult, entry_timestamp = 0\<rparr>" 299999]
        cache_read_before_timeout [of storedState storedKey
          "\<lparr>data = storedResult, entry_timestamp = 0\<rparr>" 300000]
  by (simp add: storedState_def)

text \<open>
  C8 as stated fails at the boundary: an entry stored at time 0 and read at time 300000
  has an age that does not exceed the TTL, and the read is a miss.
\<close>

theorem cache_boundary_counterexample:
  "(300000 :: int) - entry_timestamp \<lparr>data = storedResult, entry_timestamp = 0\<rparr> \<le> cacheTimeout
   \<and> cache storedState storedKey = Some \<lparr>data = storedResult, entry_timestamp = 0\<rparr>
   \<and> fst (getFromCache storedKey 300000 storedState) \<noteq> Some storedResult"
  by (simp add: getFromCache_def cacheTimeout_def storedState_def)

subsection \<open>Double arithmetic\<close>

text \<open>The exponent brackets its argument, and the rounding step moves by at most a half.\<close>

lemma exponent_bounds:
  assumes "x > 0"
  shows "pow2 (exponent x) \<le> x \<and> x < pow2 (exponent x + 1)"
proof (cases "x \<ge> 1")
  case True
  define n where "n = nat \<lfloor>x\<rfloor>"
  define k where "k = floorlog 2 n"
  from True have n: "n > 0" by (simp add: n_def)
  from floorlog_bounds [OF n, of 2] have b: "2 ^ (k - 1) \<le> n" "n < 2 ^ k"
    by (simp_all add: k_def)
  from n have k: "k > 0" by (simp add: k_def floorlog_def)
  have e: "exponent x = int k - 1" using True by (simp add: exponent_def n_def k_def)
  have fx: "\<lfloor>x\<rfloor> \<ge> 0" using True by simp
  have "rat_of_nat n = of_int \<lfloor>x\<rfloor>" using fx by (simp add: n_def)
  then have nx: "rat_of_nat n \<le> x" "x < rat_of_nat n + 1"
    by linarith+
  have lo: "pow2 (int k - 1) = 2 ^ (k - 1)"
    using k by (simp add: pow2_def nat_diff_distrib')
  have hi: "pow2 (int k - 1 + 1) = 2 ^ k" by (simp add: pow2_def)
  from b(1) have A: "(2::rat) ^ (k - 1) \<le> rat_of_nat n"
    by (metis of_nat_le_iff of_nat_numeral of_nat_power)
  from b(2) have "n + 1 \<le> 2 ^ k" by simp
  then have "rat_of_nat (n + 1) \<le> 2 ^ k"
    by (metis of_nat_le_iff of_nat_numeral of_nat_power)
  then have B: "rat_of_nat n + 1 \<le> 2 ^ k" by simp
  have "pow2 (exponent x) \<le> x" unfolding e lo using A nx by linarith
  moreover have "x < pow2 (exponent x + 1)" unfolding e hi using B nx by linarith
  ultimately show ?thesis by blast
next
  case False
  define y where "y = 1 / x"
  from False assms have y: "y > 1" by (simp add: y_def)
  define m where "m = \<lceil>y\<rceil>"
  from y have m2: "m \<ge> 2" unfolding m_def by linarith
  define n where "n = nat (m - 1)"
  define k where "k = floorlog 2 n"
  from m2 have n: "n > 0" by (simp add: n_def)
  from floorlog_bounds [OF n, of 2] have b: "2 ^ (k - 1) \<le> n" "n < 2 ^ k"
    by (simp_all add: k_def)
  from n have k: "k > 0" by (simp add: k_def floorlog_def)
  have e: "exponent x = - int k" using False by (simp add: exponent_def n_def k_def m_def y_def)
  have my: "y \<le> of_int m" "of_int m - 1 < y" unfolding m_def by linarith+
  have mn: "of_int m = rat_of_nat n + 1" using m2 by (simp add: n_def)
  from b(1) have A: "(2::rat) ^ (k - 1) \<le> rat_of_nat n"
    by (metis of_nat_le_iff of_nat_numeral of_nat_power)
  have ylo: "2 ^ (k - 1) < y" using A my mn by linarith
  from b(2) have "n + 1 \<le> 2 ^ k" by simp
  then have "rat_of_nat (n + 1) \<le> 2 ^ k"
    by (metis of_nat_le_iff of_nat_numeral of_nat_power)
  then have B: "rat_of_nat n + 1 \<le> 2 ^ k" by simp
  have yhi: "y \<le> 2 ^ k" using B my mn by linarith
  have lo: "pow2 (- int k) = 1 / 2 ^ k" using k by (simp add: pow2_def)
  have hi: "pow2 (- int k + 1) = 1 / 2 ^ (k - 1)"
  proof (cases "k = 1")
    case True then show ?thesis by (simp add: pow2_def)
  next
    case False
    with k have "- int k + 1 < 0" "nat (int k - 1) = k - 1" by simp_all
    then show ?thesis by (simp add: pow2_def)
  qed
  have "1 / 2 ^ k \<le> x"
    using yhi assms by (simp add: y_def field_simps)
  then have "pow2 (exponent x) \<le> x" unfolding e lo .
  moreover have "x < 1 / 2 ^ (k - 1)"
    using ylo assms by (simp add: y_def field_simps)
  then have "x < pow2 (exponent x + 1)" unfolding e hi .
  ultimately show ?thesis by blast
qed

lemma roundHalfEven_nearest: "\<bar>of_int (roundHalfEven x) - x\<bar> \<le> 1 / 2"
proof -
  have "rat_of_int \<lfloor>x\<rfloor> \<le> x" and "x < rat_of_int \<lfloor>x\<rfloor> + 1" by linarith+
  then show ?thesis by (simp add: roundHalfEven_def Let_def abs_le_iff)
qed

text \<open>
  \<^verbatim>\<open>0.1\<close> is the double \<open>3602879701896397 / 2^55\<close>; \<^verbatim>\<open>64.99999999999999\<close> is the
  double next below 65, and adding it to 64 gives exactly 129.
\<close>

lemma fl_examples:
  "fl (1 / 10) = Num (3602879701896397 / 36028797018963968)"
  "fl (6499999999999999 / 100000000000000) = Num (65 - 1 / 2 ^ 46)"
  "js_add (Num 64) (Num (65 - 1 / 2 ^ 46)) = Num 129"
  "js_div (Num 129) 2 = Num (129 / 2)"
  "js_add (Num 0) (Num 90) = Num 90"
  by code_simp+

subsection \<open>Quality score and strength tier\<close>

lemma propsLoop_values:
  "propsLoop props ps (t, c) =
     (foldl js_add t (valuesOfProps (\<lambda>v. js_gt v 0) props ps),
      c + length (valuesOfProps (\<lambda>v. js_gt v 0) props ps))"
  by (induction ps arbitrary: t c)
     (auto split: sum.splits option.splits json.splits)

lemma featuresLoop_values:
  "featuresLoop fs (t, c) = Inr (t', c') \<Longrightarrow>
     t' = foldl js_add t (signalValues (\<lambda>v. js_gt v 0) fs) \<and>
     c' = c + length (signalValues (\<lambda>v. js_gt v 0) fs)"
proof (induction fs arbitrary: t c)
  case Nil
  then show ?case by simp
next
  case (Cons f fs)
  then show ?case
    by (fastforce simp: propsLoop_values split: sum.splits option.splits if_splits)
qed

lemma featuresLoop_total:
  "JNull \<notin> set fs \<Longrightarrow> \<exists>acc'. featuresLoop fs acc = Inr acc'"
proof (induction fs arbitrary: acc)
  case Nil
  then show ?case by simp
next
  case (Cons f fs)
  then have "f \<noteq> JNull" by auto
  then obtain v where "get_prop f ''properties'' = Inr v" by (cases f) auto
  with Cons show ?case by (auto split: option.splits)
qed

lemma defaultQuality_clamp: "math_min 100 (math_max 0 (defaultQuality t)) = defaultQuality t"
  by (cases t) (simp_all add: defaultQuality_def)

lemma clamp_ge:
  "0 < c \<Longrightarrow> c \<le> 100 \<Longrightarrow> js_ge (math_min 100 (math_max 0 q)) c = js_ge q c"
  by (cases q) auto

lemma analyzeCoverageFeatures_total:
  "JNull \<notin> set fs \<Longrightarrow> \<exists>a. analyzeCoverageFeatures fs techType = Inr a"
  using featuresLoop_total [of fs "(Num 0, 0)"]
  by (auto simp: analyzeCoverageFeatures_def Let_def)

text \<open>
  On the feature with \<^verbatim>\<open>signal: 64\<close> and \<^verbatim>\<open>strength: 64.99999999999999\<close> the sum of
  the doubles is 129, the average 64.5, and the score 65.
\<close>

lemma double_rounding_example:
  "analyzeCoverageFeatures [roundingFeature] T5G = Inr \<lparr>strength = medium, quality = Num 65\<rparr>"
  by code_simp

text \<open>
  C6, as the code has it. For a non-empty list of features, none of them \<open>null\<close>, the
  quality score is computed from the numeric signal values that are greater than 0:
  their average in double arithmetic (the values added from 0 in the order in which the
  features and the six names are visited, the sum divided by their number), rounded to
  the nearest integer with halves upwards, and limited to the range from 0 to 100. When
  there is no such value it is the default of the technology: 60, 70, 85, 95, 80, 98 and
  75 for the seven technologies of the table, and 70 for the two others.
\<close>

theorem quality_of_positive_values:
  assumes "fs \<noteq> []" and "JNull \<notin> set fs"
  shows "(\<exists>r. analyzeCoverageFeatures fs techType = Inr r \<and>
           quality r =
             (let vs = signalValues (\<lambda>v. js_gt v 0) fs
              in if vs \<noteq> [] then math_min 100 (math_max 0 (math_round (average vs)))
                 else defaultQuality techType))
       \<and> defaultQuality T2G = Num 60 \<and> defaultQuality T3G = Num 70
       \<and> defaultQuality T4G = Num 85 \<and> defaultQuality T5G = Num 95
       \<and> defaultQuality UNCAPPED_WIRELESS = Num 80 \<and> defaultQuality FIBRE = Num 98
       \<and> defaultQuality FIXED_LTE = Num 75
       \<and> defaultQuality LICENSED_WIRELESS = Num 70 \<and> defaultQuality T_ALL = Num 70"
proof -
  from featuresLoop_total [OF assms(2)] obtain t c
    where loop: "featuresLoop fs (Num 0, 0) = Inr (t, c)" by (metis surj_pair)
  let ?vs = "signalValues (\<lambda>v. js_gt v 0) fs"
  from featuresLoop_values [OF loop]
  have tc: "t = foldl js_add (Num 0) ?vs" "c = length ?vs" by simp_all
  have main: "\<exists>r. analyzeCoverageFeatures fs techType = Inr r \<and>
           quality r =
             (let vs = ?vs
              in if vs \<noteq> [] then math_min 100 (math_max 0 (math_round (average vs)))
                 else defaultQuality techType)"
    using loop tc assms(1)
    by (simp add: analyzeCoverageFeatures_def Let_def average_def defaultQuality_clamp)
  have table: "defaultQuality T2G = Num 60 \<and> defaultQuality T3G = Num 70
       \<and> defaultQuality T4G = Num 85 \<and> defaultQuality T5G = Num 95
       \<and> defaultQuality UNCAPPED_WIRELESS = Num 80 \<and> defaultQuality FIBRE = Num 98
       \<and> defaultQuality FIXED_LTE = Num 75
       \<and> defaultQuality LICENSED_WIRELESS = Num 70 \<and> defaultQuality T_ALL = Num 70"
    by (simp add: defaultQuality_def)
  from main table show ?thesis by blast
qed

theorem quality_of_positive_values_witness:
  "sampleFeatures \<noteq> [] \<and> JNull \<notin> set sampleFeatures
   \<and> (\<exists>r. analyzeCoverageFeatures sampleFeatures T4G = Inr r \<and> quality r = Num 90)
   \<and> (\<exists>r. analyzeCoverageFeatures [roundingFeature] T5G = Inr r \<and> quality r = Num 65)"
proof -
  have v: "(let vs = signalValues (\<lambda>v. js_gt v 0) sampleFeatures
            in if vs \<noteq> [] then math_min 100 (math_max 0 (math_round (average vs)))
               else defaultQuality T4G) = Num 90"
    by code_simp
  have v': "(let vs = signalValues (\<lambda>v. js_gt v 0) [roundingFeature]
            in if vs \<noteq> [] then math_min 100 (math_max 0 (math_round (average vs)))
               else defaultQuality T5G) = Num 65"
    by code_simp
  have h: "sampleFeatures \<noteq> [] \<and> JNull \<notin> set sampleFeatures"
    by (simp add: sampleFeatures_def signalFeature_def plainFeature_def)
  have h': "JNull \<notin> set [roundingFeature]"
    by (simp add: roundingFeature_def)
  from quality_of_positive_values [of sampleFeatures T4G]
       quality_of_positive_values [of "[roundingFeature]" T5G] h h' v v'
  show ?thesis by simp
qed

text \<open>
  C6 as stated fails on a negative signal value and on a value above 100: a feature with
  \<open>rssi = -70\<close> leaves the 5G default 95 where the average of all numeric values is
  \<open>-70\<close>, and a feature with \<open>signal = 150\<close> gives 100 where the average is 150.
\<close>

theorem quality_counterexample:
  "analyzeCoverageFeatures [signalFeature ''rssi'' (Num (- 70))] T5G
     = Inr \<lparr>strength = medium, quality = Num 95\<rparr>
   \<and> specifiedQuality [signalFeature ''rssi'' (Num (- 70))] T5G = Num (- 70)
   \<and> analyzeCoverageFeatures [signalFeature ''signal'' (Num 150)] T5G
     = Inr \<lparr>strength = medium, quality = Num 100\<rparr>
   \<and> specifiedQuality [signalFeature ''signal'' (Num 150)] T5G = Num 150"
  by code_simp

text \<open>
  C7. Whenever the analysis returns, its strength tier is high if the quality score is at
  least 85 and there are at least 3 features; otherwise medium if the quality score is at
  least 65 or there are at least 2 features; otherwise low.
\<close>

theorem strength_tier_of_quality:
  assumes "analyzeCoverageFeatures fs techType = Inr r"
  shows "strength r =
           (if js_ge (quality r) 85 \<and> length fs \<ge> 3 then high
            else if js_ge (quality r) 65 \<or> length fs \<ge> 2 then medium
            else low)"
proof (cases "fs = []")
  case True
  with assms show ?thesis by (auto simp: analyzeCoverageFeatures_def)
next
  case False
  with assms obtain t c where loop: "featuresLoop fs (Num 0, 0) = Inr (t, c)"
    by (auto simp: analyzeCoverageFeatures_def split: sum.splits)
  define q where "q = (if c > 0 then math_round (js_div t c) else defaultQuality techType)"
  have "analyzeCoverageFeatures fs techType =
          Inr \<lparr>strength = (if js_ge q 85 \<and> length fs \<ge> 3 then high
                       else if js_ge q 65 \<or> length fs \<ge> 2 then medium else low),
                quality = math_min 100 (math_max 0 q)\<rparr>"
    using False loop
    by (simp add: analyzeCoverageFeatures_def Let_def q_def split del: if_split cong: if_cong)
  with assms
  have r: "r = \<lparr>strength = (if js_ge q 85 \<and> length fs \<ge> 3 then high
                       else if js_ge q 65 \<or> length fs \<ge> 2 then medium else low),
                quality = math_min 100 (math_max 0 q)\<rparr>"
    by simp
  have "js_ge (quality r) 85 = js_ge q 85" "js_ge (quality r) 65 = js_ge q 65"
    by (simp_all add: r clamp_ge)
  then show ?thesis by (simp add: r)
qed

theorem strength_tier_of_quality_witness:
  "analyzeCoverageFeatures sampleFeatures T4G = Inr \<lparr>strength = high, quality = Num 90\<rparr>
   \<and> strength \<lparr>strength = high, quality = Num 90\<rparr> = high
   \<and> length sampleFeatures = 3"
proof -
  have h: "analyzeCoverageFeatures sampleFeatures T4G
             = Inr \<lparr>strength = high, quality = Num 90\<rparr>"
    by code_simp
  from strength_tier_of_quality [OF h] h show ?thesis by (simp add: sampleFeatures_def)
qed

subsection \<open>Availability from a feature collection\<close>

text \<open>
  C5, as the code has it. For a response that is a JSON feature collection with no
  \<open>null\<close> feature (an object whose \<open>features\<close> is an array and whose \<open>type\<close> is neither
  text nor binary), the direct interpreter yields an available observation exactly when
  the collection has at least one feature, and the interpreter of the proxy client
  answers false whatever the number of features (and whatever the string built-ins do).
\<close>

theorem feature_collection_availability:
  assumes "fetch w (GeoServerFeatureInfo techType lat lng) = Reply status (Some (JObj kvs))"
      and "ok status"
      and "map_of kvs ''features'' = Some (JArr fs)"
      and "JNull \<notin> set fs"
      and "map_of kvs ''type'' \<noteq> Some (JStr ''text'')"
      and "map_of kvs ''type'' \<noteq> Some (JStr ''binary'')"
  shows "availableFlag (fst (checkTechnologyCoverage w lat lng techType cfg s)) = (length fs > 0)
       \<and> parseCoverageResult b (JObj kvs) = Inr False"
proof -
  from analyzeCoverageFeatures_total [OF assms(4)] obtain a
    where a: "analyzeCoverageFeatures fs techType = Inr a" by blast
  have direct: "availableFlag (fst (checkTechnologyCoverage w lat lng techType cfg s))
                  = (length fs > 0)"
    using assms(1,2,3) a
    by (simp add: checkTechnologyCoverage_def doFetch_def interpretResponse_def availableFlag_def)
  have proxy: "parseCoverageResult b (JObj kvs) = Inr False"
    using assms(5,6) by (simp add: parseCoverageResult_def)
  from direct proxy show ?thesis by simp
qed

theorem feature_collection_availability_witness:
  "availableFlag (fst (checkTechnologyCoverage partialWorld (fst johannesburg) (snd johannesburg)
       T5G (snd (technologyLayers ! 4)) initialState)) = True
   \<and> availableFlag (fst (checkTechnologyCoverage partialWorld (fst johannesburg) (snd johannesburg)
       T3G (snd (technologyLayers ! 2)) initialState)) = False
   \<and> parseCoverageResult asciiBuiltins (featureCollection [plainFeature]) = Inr False"
  using feature_collection_availability [of partialWorld T5G "fst johannesburg" "snd johannesburg"
          200 "[(''type'', JStr ''FeatureCollection''), (''features'', JArr [plainFeature])]"
          "[plainFeature]" "snd (technologyLayers ! 4)" initialState asciiBuiltins]
        feature_collection_availability [of partialWorld T3G "fst johannesburg" "snd johannesburg"
          200 "[(''type'', JStr ''FeatureCollection''), (''features'', JArr [])]"
          "[]" "snd (technologyLayers ! 2)" initialState asciiBuiltins]
  by (simp add: partialWorld_def featureCollection_def plainFeature_def ok_def)

text \<open>
  C5 as stated fails in the proxy client: a feature collection with one feature is
  not reported as available.
\<close>

theorem proxy_feature_collection_counterexample:
  "parseCoverageResult asciiBuiltins (featureCollection [plainFeature])
     \<noteq> Inr (length [plainFeature] > 0)"
  by (simp add: parseCoverageResult_def featureCollection_def)

subsection \<open>Exceptions and the error list\<close>

text \<open>
  Every failure inside \<open>checkTechnologyCoverage\<close> and inside the four other sources is
  caught there: the promise is fulfilled with \<^verbatim>\<open>null\<close>. The branches of the callers
  that record an error therefore never run.
\<close>

lemma checkTechnologyCoverage_caught:
  "\<exists>r. fst (checkTechnologyCoverage w lat lng t cfg s) = Inr r"
  by (simp add: checkTechnologyCoverage_def doFetch_def split: sum.splits prod.splits)

lemma technologyLoop_errs:
  "snd (fst (technologyLoop w lat lng layers (av, errs) s)) = errs"
proof (induction layers arbitrary: av s)
  case Nil
  then show ?case by simp
next
  case (Cons l layers)
  obtain t cfg where l: "l = (t, cfg)" by (cases l)
  obtain r s' where step: "checkTechnologyCoverage w lat lng t cfg s = (r, s')"
    by (cases "checkTechnologyCoverage w lat lng t cfg s")
  with checkTechnologyCoverage_caught [of w lat lng t cfg s]
  obtain r' where "r = Inr r'" by auto
  with Cons.IH step show ?case
    by (simp add: l split: option.splits)
qed

lemma getRealMTNCoverage_no_errors:
  "fst (getRealMTNCoverage w lat lng addr s) = Some rc \<Longrightarrow>
     \<exists>g. mtnGeoServer rc = Some g \<and> geo_errors g = None"
  using technologyLoop_errs [of w lat lng technologyLayers "[]" "[]" s]
  by (auto simp: getRealMTNCoverage_def split: prod.splits if_splits)

lemma try_fulfilled:
  "\<exists>v. fst (tryPublicCoverageQuery w lat lng s) = Inr v"
  "\<exists>v. fst (tryCoverageApiPoint w lat lng s) = Inr v"
  "\<exists>v. fst (tryWMSFeatureInfo w lat lng s) = Inr v"
  "\<exists>v. fst (tryAlternativeEndpoint w lat lng s) = Inr v"
  by (simp_all add: tryPublicCoverageQuery_def tryCoverageApiPoint_def tryWMSFeatureInfo_def
        tryAlternativeEndpoint_def doFetch_def split: option.splits sum.splits)

lemma processResponses_fulfilled:
  "(\<And>r. r \<in> set rs \<Longrightarrow> \<exists>v. r = Inr v) \<Longrightarrow>
     errors (processResponses rs i res) = errors res"
proof (induction rs arbitrary: i res)
  case Nil
  then show ?case by simp
next
  case (Cons r rs)
  from Cons.prems [of r] obtain v where r: "r = Inr v" by auto
  have rest: "\<And>i res. errors (processResponses rs i res) = errors res"
    using Cons.IH Cons.prems by simp
  show ?case by (cases v) (simp_all add: r rest)
qed

text \<open>
  A lookup inside the bounds that is not answered from the cache returns an empty error
  list, whatever the requests did.
\<close>

lemma fresh_lookup_errors_empty:
  assumes "isInSouthAfrica latitude longitude"
      and "fst (getFromCache (toFixed4 latitude, toFixed4 longitude) (clockStart w) s) = None"
  shows "errors (fst (checkCoverage w latitude longitude addr s)) = []"
proof -
  let ?key = "(toFixed4 latitude, toFixed4 longitude)"
  obtain s0 where g: "getFromCache ?key (clockStart w) s = (None, s0)"
    using assms(2) by (cases "getFromCache ?key (clockStart w) s") simp
  obtain rc s1 where real: "getRealMTNCoverage w latitude longitude addr s0 = (rc, s1)"
    by (cases "getRealMTNCoverage w latitude longitude addr s0")
  show ?thesis
  proof (cases rc)
    case (Some c)
    with assms(1) g real show ?thesis by (simp add: checkCoverage_def Let_def)
  next
    case None
    obtain r1 s2 where t1: "tryPublicCoverageQuery w latitude longitude s1 = (r1, s2)"
      by (cases "tryPublicCoverageQuery w latitude longitude s1")
    obtain r2 s3 where t2: "tryCoverageApiPoint w latitude longitude s2 = (r2, s3)"
      by (cases "tryCoverageApiPoint w latitude longitude s2")
    obtain r3 s4 where t3: "tryWMSFeatureInfo w latitude longitude s3 = (r3, s4)"
      by (cases "tryWMSFeatureInfo w latitude longitude s3")
    obtain r4 s5 where t4: "tryAlternativeEndpoint w latitude longitude s4 = (r4, s5)"
      by (cases "tryAlternativeEndpoint w latitude longitude s4")
    have "\<And>r. r \<in> set [r1, r2, r3, r4] \<Longrightarrow> \<exists>v. r = Inr v"
      using try_fulfilled(1) [of w latitude longitude s1]
        try_fulfilled(2) [of w latitude longitude s2]
        try_fulfilled(3) [of w latitude longitude s3]
        try_fulfilled(4) [of w latitude longitude s4]
        t1 t2 t3 t4 by auto
    then have e: "\<And>res. errors (processResponses [r1, r2, r3, r4] 0 res) = errors res"
      by (rule processResponses_fulfilled)
    from assms(1) g real None t1 t2 t3 t4 show ?thesis
      by (simp add: checkCoverage_def Let_def e)
  qed
qed

lemmas eval_defs = checkCoverage_def isInSouthAfrica_def north_def south_def east_def west_def
  johannesburg_def getFromCache_def initialState_def getRealMTNCoverage_def
  technologyLayers_def checkTechnologyCoverage_def doFetch_def partialWorld_def
  interpretResponse_def ok_def featureCollection_def analyzeCoverageFeatures_def
  plainFeature_def signalProps_def defaultQuality_def emptyCoverage_def addToCache_def
  failingWorld_def tryPublicCoverageQuery_def tryCoverageApiPoint_def tryWMSFeatureInfo_def
  tryAlternativeEndpoint_def okJson_def keysCount_def getProvince_def provinces_def
  addressOr_def objectAssign_def orElse_def cacheTimeout_def Let_def

text \<open>
  C3, at a concrete input. At Johannesburg on a fresh object, the request of 4G is issued
  and rejects while the request of 5G returns one feature: the result has
  \<open>success = True\<close> and one observation, of 5G; its error list is empty and the
  GeoServer entry carries no error list either, so nothing in the result refers to 4G.
\<close>

theorem partial_failure_records_no_error:
  "fetch partialWorld (GeoServerFeatureInfo T4G (fst johannesburg) (snd johannesburg))
     = Rejects ''Failed to fetch''
   \<and> GeoServerFeatureInfo T4G (fst johannesburg) (snd johannesburg)
       \<in> set (calls (snd (checkCoverage partialWorld (fst johannesburg) (snd johannesburg) None
                  initialState)))
   \<and> success (fst (checkCoverage partialWorld (fst johannesburg) (snd johannesburg) None
                  initialState)) = True
   \<and> errors (fst (checkCoverage partialWorld (fst johannesburg) (snd johannesburg) None
                  initialState)) = []
   \<and> map (\<lambda>g. (map obs_type (types g), geo_errors g))
        (case mtnGeoServer (coverage (fst (checkCoverage partialWorld (fst johannesburg)
                (snd johannesburg) None initialState))) of Some g \<Rightarrow> [g] | None \<Rightarrow> [])
         = [([T5G], None)]"
  by (simp add: eval_defs)

text \<open>
  C4, at a concrete input. At Johannesburg on a fresh object with every request
  rejecting, thirteen requests are issued (nine layers, four other sources) and a result
  is returned with \<open>success = False\<close> and no coverage entry; its error list is empty.
\<close>

theorem total_failure_records_no_error:
  "length (calls (snd (checkCoverage failingWorld (fst johannesburg) (snd johannesburg) None
                  initialState))) = 13
   \<and> success (fst (checkCoverage failingWorld (fst johannesburg) (snd johannesburg) None
                  initialState)) = False
   \<and> coverage (fst (checkCoverage failingWorld (fst johannesburg) (snd johannesburg) None
                  initialState)) = emptyCoverage
   \<and> errors (fst (checkCoverage failingWorld (fst johannesburg) (snd johannesburg) None
                  initialState)) = []"
  by (simp add: eval_defs)

subsection \<open>The invariant of the results\<close>

lemma doFetch_cache: "cache (snd (doFetch w req s)) = cache s"
  by (simp add: doFetch_def)

lemma checkTechnologyCoverage_cache:
  "cache (snd (checkTechnologyCoverage w lat lng t cfg s)) = cache s"
  by (simp add: checkTechnologyCoverage_def doFetch_def split: sum.splits prod.splits)

lemma technologyLoop_cache:
  "cache (snd (technologyLoop w lat lng layers acc s)) = cache s"
proof (induction layers arbitrary: acc s)
  case Nil
  then show ?case by simp
next
  case (Cons l layers)
  obtain t cfg where l: "l = (t, cfg)" by (cases l)
  obtain av errs where acc: "acc = (av, errs)" by (cases acc)
  obtain r s' where step: "checkTechnologyCoverage w lat lng t cfg s = (r, s')"
    by (cases "checkTechnologyCoverage w lat lng t cfg s")
  then have "cache s' = cache s"
    using checkTechnologyCoverage_cache [of w lat lng t cfg s] by simp
  with Cons.IH step show ?case
    by (simp add: l acc split: sum.splits option.splits)
qed

lemma getRealMTNCoverage_cache:
  "cache (snd (getRealMTNCoverage w lat lng addr s)) = cache s"
proof -
  obtain av errs s'
    where l: "technologyLoop w lat lng technologyLayers ([], []) s = ((av, errs), s')"
    by (metis surj_pair)
  with technologyLoop_cache [of w lat lng technologyLayers "([], [])" s]
  have "cache s' = cache s" by simp
  with l show ?thesis by (simp add: getRealMTNCoverage_def)
qed

lemma getRealMTNCoverage_keys:
  "fst (getRealMTNCoverage w lat lng addr s) = Some rc \<Longrightarrow> keysCount rc = 1"
  by (auto simp: getRealMTNCoverage_def keysCount_def emptyCoverage_def
           split: prod.splits if_splits)

lemma try_cache:
  "cache (snd (tryPublicCoverageQuery w lat lng s)) = cache s"
  "cache (snd (tryCoverageApiPoint w lat lng s)) = cache s"
  "cache (snd (tryWMSFeatureInfo w lat lng s)) = cache s"
  "cache (snd (tryAlternativeEndpoint w lat lng s)) = cache s"
  by (simp_all add: tryPublicCoverageQuery_def tryCoverageApiPoint_def tryWMSFeatureInfo_def
        tryAlternativeEndpoint_def doFetch_def split: option.splits sum.splits)

lemma getFromCache_inv:
  assumes "cacheInv s"
  shows "cacheInv (snd (getFromCache key t s))"
    and "fst (getFromCache key t s) = Some r \<Longrightarrow> resultInv r"
proof -
  show "cacheInv (snd (getFromCache key t s))"
    using assms unfolding cacheInv_def getFromCache_def
    by (auto split: option.splits if_splits)
  show "fst (getFromCache key t s) = Some r \<Longrightarrow> resultInv r"
  proof -
    assume a: "fst (getFromCache key t s) = Some r"
    then obtain e where "cache s key = Some e" "r = data e"
      by (auto simp: getFromCache_def split: option.splits if_splits)
    with assms show "resultInv r" unfolding cacheInv_def by blast
  qed
qed

lemma addToCache_inv:
  "cacheInv s \<Longrightarrow> resultInv r \<Longrightarrow> cacheInv (addToCache key r t s)"
  by (auto simp: addToCache_def cacheInv_def)

lemma cacheInv_cong: "cache s' = cache s \<Longrightarrow> cacheInv s \<Longrightarrow> cacheInv s'"
  by (simp add: cacheInv_def)

lemma checkCoverage_inv:
  assumes "cacheInv s"
  shows "resultInv (fst (checkCoverage w latitude longitude addr s)) \<and>
         cacheInv (snd (checkCoverage w latitude longitude addr s))"
proof (cases "isInSouthAfrica latitude longitude")
  case False
  with assms show ?thesis
    by (simp add: checkCoverage_def resultInv_def keysCount_def emptyCoverage_def)
next
  case True
  let ?key = "(toFixed4 latitude, toFixed4 longitude)"
  obtain cached s0 where g: "getFromCache ?key (clockStart w) s = (cached, s0)"
    by (cases "getFromCache ?key (clockStart w) s")
  have s0: "cacheInv s0"
    using getFromCache_inv(1) [OF assms, of ?key "clockStart w"] g by simp
  show ?thesis
  proof (cases cached)
    case (Some r)
    then have "resultInv r"
      using getFromCache_inv(2) [OF assms, of ?key "clockStart w" r] g by simp
    with True g Some s0 show ?thesis by (simp add: checkCoverage_def)
  next
    case None
    obtain rc s1 where real: "getRealMTNCoverage w latitude longitude addr s0 = (rc, s1)"
      by (cases "getRealMTNCoverage w latitude longitude addr s0")
    have s1: "cacheInv s1"
      using getRealMTNCoverage_cache [of w latitude longitude addr s0] real s0
      by (auto intro: cacheInv_cong)
    show ?thesis
    proof (cases rc)
      case (Some c)
      then have "keysCount c = 1"
        using getRealMTNCoverage_keys [of w latitude longitude addr s0 c] real by simp
      with True g None real Some s1 show ?thesis
        by (simp add: checkCoverage_def Let_def resultInv_def addToCache_inv)
    next
      case rcNone: None
      obtain r1 s2 where t1: "tryPublicCoverageQuery w latitude longitude s1 = (r1, s2)"
        by (cases "tryPublicCoverageQuery w latitude longitude s1")
      obtain r2 s3 where t2: "tryCoverageApiPoint w latitude longitude s2 = (r2, s3)"
        by (cases "tryCoverageApiPoint w latitude longitude s2")
      obtain r3 s4 where t3: "tryWMSFeatureInfo w latitude longitude s3 = (r3, s4)"
        by (cases "tryWMSFeatureInfo w latitude longitude s3")
      obtain r4 s5 where t4: "tryAlternativeEndpoint w latitude longitude s4 = (r4, s5)"
        by (cases "tryAlternativeEndpoint w latitude longitude s4")
      have "cache s5 = cache s1"
        using try_cache(1) [of w latitude longitude s1] try_cache(2) [of w latitude longitude s2]
          try_cache(3) [of w latitude longitude s3] try_cache(4) [of w latitude longitude s4]
          t1 t2 t3 t4 by simp
      then have s5: "cacheInv s5" using s1 by (rule cacheInv_cong)
      have "\<And>r. r \<in> set [r1, r2, r3, r4] \<Longrightarrow> \<exists>v. r = Inr v"
        using try_fulfilled(1) [of w latitude longitude s1]
          try_fulfilled(2) [of w latitude longitude s2]
          try_fulfilled(3) [of w latitude longitude s3]
          try_fulfilled(4) [of w latitude longitude s4]
          t1 t2 t3 t4 by auto
      then have e: "\<And>res. errors (processResponses [r1, r2, r3, r4] 0 res) = errors res"
        by (rule processResponses_fulfilled)
      from True g None real rcNone t1 t2 t3 t4 s5 show ?thesis
        by (auto simp: checkCoverage_def Let_def resultInv_def e intro!: addToCache_inv)
    qed
  qed
qed

lemma runCalls_inv:
  "cacheInv s \<Longrightarrow> r \<in> set (fst (runCalls cs s)) \<Longrightarrow> resultInv r"
proof (induction cs arbitrary: s)
  case Nil
  then show ?case by simp
next
  case (Cons c cs)
  obtain w la lo a where c: "c = (w, la, lo, a)" by (cases c)
  obtain r1 s' where step: "checkCoverage w la lo a s = (r1, s')"
    by (cases "checkCoverage w la lo a s")
  from checkCoverage_inv [OF Cons.prems(1), of w la lo a] step
  have r1: "resultInv r1" and s': "cacheInv s'" by simp_all
  from Cons.prems(2) have "r = r1 \<or> r \<in> set (fst (runCalls cs s'))"
    by (simp add: c step split: prod.splits)
  with r1 Cons.IH [OF s'] show ?case by auto
qed

lemma cacheInv_initial: "cacheInv initialState"
  by (simp add: cacheInv_def initialState_def)

lemma length_runCalls: "length (fst (runCalls cs s)) = length cs"
  by (induction cs arbitrary: s) (auto simp: split_def Let_def)

text \<open>
  C2, evaluated over every run. In any sequence of calls on an object that starts with
  an empty cache (results answered from the cache included), every result has \<open>success\<close>
  true exactly when its coverage has at least one key, and every result with \<open>success\<close>
  true has an empty error list: no run returns a successful result that carries errors.
\<close>

theorem success_never_with_errors:
  assumes "r \<in> set (fst (runCalls cs initialState))"
  shows "success r = (keysCount (coverage r) > 0) \<and> (success r \<longrightarrow> errors r = [])"
  using runCalls_inv [OF cacheInv_initial assms] by (simp add: resultInv_def)

theorem success_never_with_errors_witness:
  "map success (fst (runCalls demoCalls initialState)) = [True, True, False]
   \<and> map (\<lambda>r. length (errors r)) (fst (runCalls demoCalls initialState)) = [0, 0, 1]
   \<and> success (fst (runCalls demoCalls initialState) ! 0)
       = (keysCount (coverage (fst (runCalls demoCalls initialState) ! 0)) > 0)
   \<and> errors (fst (runCalls demoCalls initialState) ! 0) = []"
proof -
  have mem: "fst (runCalls demoCalls initialState) ! 0 \<in> set (fst (runCalls demoCalls initialState))"
  proof (rule nth_mem)
    show "0 < length (fst (runCalls demoCalls initialState))"
      unfolding length_runCalls by (simp add: demoCalls_def)
  qed
  have ev: "map success (fst (runCalls demoCalls initialState)) = [True, True, False]"
    by (simp add: demoCalls_def eval_defs)
  have ev': "map (\<lambda>r. length (errors r)) (fst (runCalls demoCalls initialState)) = [0, 0, 1]"
    by (simp add: demoCalls_def eval_defs)
  have s0: "success (fst (runCalls demoCalls initialState) ! 0)"
  proof -
    have "0 < length (fst (runCalls demoCalls initialState))"
      unfolding length_runCalls by (simp add: demoCalls_def)
    then have "map success (fst (runCalls demoCalls initialState)) ! 0
                 = success (fst (runCalls demoCalls initialState) ! 0)"
      by (rule nth_map)
    then show ?thesis by (simp add: ev)
  qed
  from success_never_with_errors [OF mem] ev ev' s0 show ?thesis by simp
qed

end
